theory Spec2Isabelle
  imports Main "HOL-Library.Word"
begin

section \<open>Data model (internal/storage/user.go, internal/auth/models.go)\<close>

text \<open>
  A \<open>time.Time\<close> is an integer count of nanoseconds since Go's zero Time, so that the
  zero value of the type is \<open>0\<close>. A \<open>time.Duration\<close> is a count of nanoseconds.
  Every call of \<open>time.Now()\<close> in the source is an explicit argument of the function
  that makes the call, one argument per call, in the order of the calls.
\<close>

type_synonym time = int

type_synonym addr = nat

record User =
  ID :: string
  Email :: string
  Username :: string
  PasswordHash :: string
  FirstName :: string
  LastName :: string
  CreatedAt :: time
  UpdatedAt :: time
  IsActive :: bool

text \<open>
  The error values of the two packages are distinct Go values, so each has its own
  constructor. \<open>lib_error\<close> stands for an error of bcrypt or crypto/rand that the
  service passes on as it is; \<open>NilDereference\<close> is the run-time panic of reading
  through a nil pointer.
\<close>

datatype error =
    storage_ErrUserNotFound
  | storage_ErrUserExists
  | storage_ErrInvalidCredentials
  | auth_ErrInvalidToken
  | auth_ErrTokenExpired
  | auth_ErrInvalidCredentials
  | auth_ErrUserNotFound
  | auth_ErrUserExists
  | lib_error string
  | NilDereference

text \<open>
  The store holds pointers: \<open>users\<close> maps an identifier to the address of a \<open>User\<close>
  object. Objects live in a heap that only grows; the address of an object is its
  position, so a new object never shares its address with an older one.
\<close>

record MemoryUserStore =
  users :: "string \<rightharpoonup> addr"
  emailIdx :: "string \<rightharpoonup> string"
  usernameIdx :: "string \<rightharpoonup> string"

record World =
  heap :: "User list"
  store :: MemoryUserStore

definition deref :: "User list \<Rightarrow> addr \<Rightarrow> User option" where
  "deref h p = (if p < length h then Some (h ! p) else None)"

text \<open>Taking the address of a fresh struct value (\<open>&userCopy\<close>, \<open>&storage.User{...}\<close>).\<close>

definition new_User :: "User \<Rightarrow> World \<Rightarrow> addr \<times> World" where
  "new_User u w = (length (heap w), w\<lparr>heap := heap w @ [u]\<rparr>)"

text \<open>A caller writing through a pointer it holds (\<open>*p = v\<close>); nothing happens to the
  model when the pointer is not an object.\<close>

definition assign :: "addr \<Rightarrow> User \<Rightarrow> World \<Rightarrow> World" where
  "assign p v w = (if p < length (heap w) then w\<lparr>heap := (heap w)[p := v]\<rparr> else w)"

definition NewMemoryUserStore :: MemoryUserStore where
  "NewMemoryUserStore = \<lparr>users = Map.empty, emailIdx = Map.empty, usernameIdx = Map.empty\<rparr>"

definition init_World :: World where
  "init_World = \<lparr>heap = [], store = NewMemoryUserStore\<rparr>"

section \<open>The in-memory store (internal/storage/user.go)\<close>

definition CreateUser :: "time \<Rightarrow> time \<Rightarrow> addr \<Rightarrow> World \<Rightarrow> (error + unit) \<times> World" where
  "CreateUser now1 now2 user w =
     (case deref (heap w) user of
        None \<Rightarrow> (Inl NilDereference, w)
      | Some u \<Rightarrow>
          let s = store w in
          if users s (ID u) \<noteq> None then (Inl storage_ErrUserExists, w)
          else if emailIdx s (Email u) \<noteq> None then (Inl storage_ErrUserExists, w)
          else if usernameIdx s (Username u) \<noteq> None then (Inl storage_ErrUserExists, w)
          else
            let userCopy = u\<lparr>CreatedAt := now1, UpdatedAt := now2, IsActive := True\<rparr>;
                (p, w1) = new_User userCopy w
            in (Inr (),
                w1\<lparr>store := s\<lparr>users := (users s)(ID u \<mapsto> p),
                               emailIdx := (emailIdx s)(Email u \<mapsto> ID u),
                               usernameIdx := (usernameIdx s)(Username u \<mapsto> ID u)\<rparr>\<rparr>))"

definition GetUserByID :: "string \<Rightarrow> World \<Rightarrow> (error + addr) \<times> World" where
  "GetUserByID ident w =
     (case users (store w) ident of
        None \<Rightarrow> (Inl storage_ErrUserNotFound, w)
      | Some user \<Rightarrow>
          (case deref (heap w) user of
             None \<Rightarrow> (Inl NilDereference, w)
           | Some userCopy \<Rightarrow> (case new_User userCopy w of (p, w1) \<Rightarrow> (Inr p, w1))))"

text \<open>
  The two lookups through an index read \<open>s.users[userID]\<close> without a presence check: a
  missing key gives the nil pointer, and \<open>*user\<close> panics.
\<close>

definition GetUserByEmail :: "string \<Rightarrow> World \<Rightarrow> (error + addr) \<times> World" where
  "GetUserByEmail email w =
     (case emailIdx (store w) email of
        None \<Rightarrow> (Inl storage_ErrUserNotFound, w)
      | Some userID \<Rightarrow>
          (case users (store w) userID of
             None \<Rightarrow> (Inl NilDereference, w)
           | Some user \<Rightarrow>
               (case deref (heap w) user of
                  None \<Rightarrow> (Inl NilDereference, w)
                | Some userCopy \<Rightarrow> (case new_User userCopy w of (p, w1) \<Rightarrow> (Inr p, w1)))))"

definition GetUserByUsername :: "string \<Rightarrow> World \<Rightarrow> (error + addr) \<times> World" where
  "GetUserByUsername username w =
     (case usernameIdx (store w) username of
        None \<Rightarrow> (Inl storage_ErrUserNotFound, w)
      | Some userID \<Rightarrow>
          (case users (store w) userID of
             None \<Rightarrow> (Inl NilDereference, w)
           | Some user \<Rightarrow>
               (case deref (heap w) user of
                  None \<Rightarrow> (Inl NilDereference, w)
                | Some userCopy \<Rightarrow> (case new_User userCopy w of (p, w1) \<Rightarrow> (Inr p, w1)))))"

text \<open>
  \<open>UpdateUser\<close> runs its two index blocks one after the other. The first block has
  already written to \<open>emailIdx\<close> when the second block returns \<open>ErrUserExists\<close>: the
  world returned with that error carries the store \<open>s1\<close>.
\<close>

definition UpdateUser :: "time \<Rightarrow> addr \<Rightarrow> World \<Rightarrow> (error + unit) \<times> World" where
  "UpdateUser now user w =
     (case deref (heap w) user of
        None \<Rightarrow> (Inl NilDereference, w)
      | Some u \<Rightarrow>
          (case users (store w) (ID u) of
             None \<Rightarrow> (Inl storage_ErrUserNotFound, w)
           | Some existing \<Rightarrow>
               (case deref (heap w) existing of
                  None \<Rightarrow> (Inl NilDereference, w)
                | Some existingUser \<Rightarrow>
                    let s = store w in
                    if Email u \<noteq> Email existingUser \<and> emailIdx s (Email u) \<noteq> None
                    then (Inl storage_ErrUserExists, w)
                    else
                      let s1 = (if Email u \<noteq> Email existingUser
                                then s\<lparr>emailIdx :=
                                         ((emailIdx s)(Email existingUser := None))(Email u \<mapsto> ID u)\<rparr>
                                else s)
                      in
                      if Username u \<noteq> Username existingUser \<and> usernameIdx s1 (Username u) \<noteq> None
                      then (Inl storage_ErrUserExists, w\<lparr>store := s1\<rparr>)
                      else
                        let s2 = (if Username u \<noteq> Username existingUser
                                  then s1\<lparr>usernameIdx :=
                                            ((usernameIdx s1)(Username existingUser := None))
                                              (Username u \<mapsto> ID u)\<rparr>
                                  else s1);
                            userCopy = u\<lparr>UpdatedAt := now\<rparr>;
                            (p, w1) = new_User userCopy w
                        in (Inr (), w1\<lparr>store := s2\<lparr>users := (users s2)(ID u \<mapsto> p)\<rparr>\<rparr>))))"

definition DeleteUser :: "string \<Rightarrow> World \<Rightarrow> (error + unit) \<times> World" where
  "DeleteUser ident w =
     (case users (store w) ident of
        None \<Rightarrow> (Inl storage_ErrUserNotFound, w)
      | Some p \<Rightarrow>
          (case deref (heap w) p of
             None \<Rightarrow> (Inl NilDereference, w)
           | Some user \<Rightarrow>
               let s = store w in
               (Inr (),
                w\<lparr>store := s\<lparr>users := (users s)(ident := None),
                              emailIdx := (emailIdx s)(Email user := None),
                              usernameIdx := (usernameIdx s)(Username user := None)\<rparr>\<rparr>)))"

section \<open>Request and response types (internal/auth/models.go, internal/config)\<close>

record LoginRequest =
  login_Email :: string
  login_Password :: string

record RegisterRequest =
  reg_Email :: string
  reg_Username :: string
  reg_Password :: string
  reg_FirstName :: string
  reg_LastName :: string

text \<open>\<open>UserInfo\<close> has the six fields below and no other: there is no password field.\<close>

record UserInfo =
  info_ID :: string
  info_Email :: string
  info_Username :: string
  info_FirstName :: string
  info_LastName :: string
  info_CreatedAt :: time

record AuthConfig =
  JWTSecret :: string
  TokenDuration :: int
  BCryptCost :: int
  SessionTimeout :: int

section \<open>The token library (github.com/golang-jwt/jwt/v5, pinned at v5.2.0 in go.mod)\<close>

text \<open>
  The library is a dependency, not code of the repository. The model keeps what
  \<open>service.go\<close> relies on. A token string is the compact serialisation of a header
  naming the signing method, a claim set and a signature; a string that does not decode
  is \<open>Malformed\<close>. The signature is symbolic: \<open>MAC m key (hdr, claims)\<close> is the HMAC of
  method \<open>m\<close> under \<open>key\<close> over the encoded header and claims, and it verifies for
  exactly that method, key and content.
\<close>

datatype SigningMethod = HS256 | HS384 | HS512 | NonHMAC string

fun is_SigningMethodHMAC :: "SigningMethod \<Rightarrow> bool" where
  "is_SigningMethodHMAC (NonHMAC _) = False"
| "is_SigningMethodHMAC _ = True"

text \<open>\<open>ExpiresAt\<close>, \<open>IssuedAt\<close> and \<open>NotBefore\<close> are pointers to a \<open>NumericDate\<close>: a claim
  absent from the token is the nil pointer, \<open>None\<close>.\<close>

record JWTClaims =
  UserID :: string
  claims_Email :: string
  claims_Username :: string
  ExpiresAt :: "time option"
  IssuedAt :: "time option"
  NotBefore :: "time option"
  Issuer :: string
  Subject :: string

datatype signature = MAC SigningMethod string "SigningMethod \<times> JWTClaims" | NoMAC string

datatype tokenString = Malformed string | Compact SigningMethod JWTClaims signature

record Token =
  Method :: SigningMethod
  Claims :: JWTClaims
  Valid :: bool

datatype jwt_error =
    ErrTokenMalformed
  | ErrTokenUnverifiable
  | ErrTokenSignatureInvalid
  | ErrTokenInvalidClaims

text \<open>\<open>jwt.TimePrecision\<close> is one second; \<open>NewNumericDate\<close> truncates to it.\<close>

definition TimePrecision :: int where
  "TimePrecision = 1000000000"

definition NewNumericDate :: "time \<Rightarrow> time" where
  "NewNumericDate t = t - t mod TimePrecision"

definition jwt_Verify :: "SigningMethod \<Rightarrow> string \<Rightarrow> SigningMethod \<times> JWTClaims \<Rightarrow> signature \<Rightarrow> bool" where
  "jwt_Verify m key signingInput sig = (sig = MAC m key signingInput)"

text \<open>
  The default validator of the parser (no leeway, no required claim): with \<open>now\<close> the
  library's own reading of the clock, an \<open>exp\<close> claim must lie after \<open>now\<close> and an
  \<open>nbf\<close> claim must not lie after \<open>now\<close>; \<open>iat\<close> is not checked unless asked for.
\<close>

definition jwt_Validate :: "time \<Rightarrow> JWTClaims \<Rightarrow> bool" where
  "jwt_Validate now claims =
     ((case ExpiresAt claims of None \<Rightarrow> True | Some exp \<Rightarrow> now < exp) \<and>
      (case NotBefore claims of None \<Rightarrow> True | Some nbf \<Rightarrow> \<not> now < nbf))"

definition jwt_ParseWithClaims ::
    "time \<Rightarrow> tokenString \<Rightarrow> (SigningMethod \<Rightarrow> error + string) \<Rightarrow> jwt_error + Token" where
  "jwt_ParseWithClaims now tokenString keyFunc =
     (case tokenString of
        Malformed _ \<Rightarrow> Inl ErrTokenMalformed
      | Compact m claims sig \<Rightarrow>
          (case keyFunc m of
             Inl _ \<Rightarrow> Inl ErrTokenUnverifiable
           | Inr key \<Rightarrow>
               if \<not> jwt_Verify m key (m, claims) sig then Inl ErrTokenSignatureInvalid
               else if \<not> jwt_Validate now claims then Inl ErrTokenInvalidClaims
               else Inr \<lparr>Method = m, Claims = claims, Valid = True\<rparr>))"

text \<open>Signing with an HMAC method and a byte-slice key does not fail.\<close>

definition jwt_SignedString :: "SigningMethod \<Rightarrow> JWTClaims \<Rightarrow> string \<Rightarrow> error + tokenString" where
  "jwt_SignedString m claims key = Inr (Compact m claims (MAC m key (m, claims)))"

record LoginResponse =
  resp_Token :: tokenString
  resp_User :: UserInfo
  resp_ExpiresAt :: time

section \<open>The authentication service (internal/auth/service.go)\<close>

definition userToUserInfo :: "User \<Rightarrow> UserInfo" where
  "userToUserInfo user =
     \<lparr>info_ID = ID user, info_Email = Email user, info_Username = Username user,
      info_FirstName = FirstName user, info_LastName = LastName user,
      info_CreatedAt = CreatedAt user\<rparr>"

text \<open>
  bcrypt and crypto/rand are dependencies: \<open>bcrypt.GenerateFromPassword\<close>,
  \<open>bcrypt.CompareHashAndPassword\<close> (\<open>None\<close> is the nil error) and the outcome of
  \<open>rand.Read\<close> on the 16-byte buffer are arguments.
\<close>

definition hashPassword :: "AuthConfig \<Rightarrow> (string \<Rightarrow> int \<Rightarrow> error + string) \<Rightarrow> string \<Rightarrow> error + string" where
  "hashPassword cfg bcrypt_GenerateFromPassword password =
     (case bcrypt_GenerateFromPassword password (BCryptCost cfg) of
        Inl err \<Rightarrow> Inl err
      | Inr hashedBytes \<Rightarrow> Inr hashedBytes)"

definition verifyPassword :: "(string \<Rightarrow> string \<Rightarrow> error option) \<Rightarrow> string \<Rightarrow> string \<Rightarrow> error option" where
  "verifyPassword bcrypt_CompareHashAndPassword hashedPassword password =
     bcrypt_CompareHashAndPassword hashedPassword password"

definition hexdigit :: "nat \<Rightarrow> char" where
  "hexdigit n = ''0123456789abcdef'' ! (n mod 16)"

definition hex_EncodeToString :: "8 word list \<Rightarrow> string" where
  "hex_EncodeToString bytes =
     concat (map (\<lambda>b. [hexdigit (unat b div 16), hexdigit (unat b mod 16)]) bytes)"

definition generateID :: "error + 8 word list \<Rightarrow> error + string" where
  "generateID rand_Read =
     (case rand_Read of
        Inl err \<Rightarrow> Inl err
      | Inr bytes \<Rightarrow> Inr (hex_EncodeToString bytes))"

definition generateToken ::
    "AuthConfig \<Rightarrow> time \<Rightarrow> time \<Rightarrow> time \<Rightarrow> User \<Rightarrow> error + tokenString \<times> time" where
  "generateToken cfg now1 now2 now3 user =
     (let expiresAt = now1 + TokenDuration cfg;
          claims = \<lparr>UserID = ID user, claims_Email = Email user,
                    claims_Username = Username user,
                    ExpiresAt = Some (NewNumericDate expiresAt),
                    IssuedAt = Some (NewNumericDate now2),
                    NotBefore = Some (NewNumericDate now3),
                    Issuer = ''login-app'', Subject = ID user\<rparr>
      in case jwt_SignedString HS256 claims (JWTSecret cfg) of
           Inl err \<Rightarrow> Inl err
         | Inr tokenString \<Rightarrow> Inr (tokenString, expiresAt))"

text \<open>
  \<open>Register\<close> builds its own \<open>User\<close> object, hands its address to \<open>CreateUser\<close>, and
  afterwards reads the token claims and the returned view from that same object. The
  fields it does not set have Go's zero values.
\<close>

definition Register ::
    "AuthConfig \<Rightarrow> (string \<Rightarrow> int \<Rightarrow> error + string) \<Rightarrow> error + 8 word list \<Rightarrow>
     time \<Rightarrow> time \<Rightarrow> time \<Rightarrow> time \<Rightarrow> time \<Rightarrow> RegisterRequest \<Rightarrow> World \<Rightarrow>
     (error + LoginResponse) \<times> World" where
  "Register cfg bcrypt_GenerateFromPassword rand_Read now1 now2 now3 now4 now5 req w =
     (case GetUserByEmail (reg_Email req) w of
        (Inr _, w1) \<Rightarrow> (Inl auth_ErrUserExists, w1)
      | (Inl NilDereference, w1) \<Rightarrow> (Inl NilDereference, w1)
      | (Inl _, w1) \<Rightarrow>
     (case GetUserByUsername (reg_Username req) w1 of
        (Inr _, w2) \<Rightarrow> (Inl auth_ErrUserExists, w2)
      | (Inl NilDereference, w2) \<Rightarrow> (Inl NilDereference, w2)
      | (Inl _, w2) \<Rightarrow>
     (case hashPassword cfg bcrypt_GenerateFromPassword (reg_Password req) of
        Inl err \<Rightarrow> (Inl err, w2)
      | Inr hashedPassword \<Rightarrow>
     (case generateID rand_Read of
        Inl err \<Rightarrow> (Inl err, w2)
      | Inr userID \<Rightarrow>
     (case new_User \<lparr>ID = userID, Email = reg_Email req, Username = reg_Username req,
                     PasswordHash = hashedPassword, FirstName = reg_FirstName req,
                     LastName = reg_LastName req, CreatedAt = 0, UpdatedAt = 0,
                     IsActive = False\<rparr> w2 of
        (user, w3) \<Rightarrow>
     (case CreateUser now1 now2 user w3 of
        (Inl err, w4) \<Rightarrow> (Inl err, w4)
      | (Inr _, w4) \<Rightarrow>
     (case deref (heap w4) user of
        None \<Rightarrow> (Inl NilDereference, w4)
      | Some u \<Rightarrow>
     (case generateToken cfg now3 now4 now5 u of
        Inl err \<Rightarrow> (Inl err, w4)
      | Inr (token, expiresAt) \<Rightarrow>
          (Inr \<lparr>resp_Token = token, resp_User = userToUserInfo u,
                resp_ExpiresAt = expiresAt\<rparr>, w4)))))))))"

definition Login ::
    "AuthConfig \<Rightarrow> (string \<Rightarrow> string \<Rightarrow> error option) \<Rightarrow> time \<Rightarrow> time \<Rightarrow> time \<Rightarrow>
     LoginRequest \<Rightarrow> World \<Rightarrow> (error + LoginResponse) \<times> World" where
  "Login cfg bcrypt_CompareHashAndPassword now1 now2 now3 req w =
     (case GetUserByEmail (login_Email req) w of
        (Inl err, w1) \<Rightarrow>
          if err = storage_ErrUserNotFound then (Inl auth_ErrInvalidCredentials, w1)
          else (Inl err, w1)
      | (Inr user, w1) \<Rightarrow>
     (case deref (heap w1) user of
        None \<Rightarrow> (Inl NilDereference, w1)
      | Some u \<Rightarrow>
          if \<not> IsActive u then (Inl auth_ErrInvalidCredentials, w1)
          else if verifyPassword bcrypt_CompareHashAndPassword (PasswordHash u)
                    (login_Password req) \<noteq> None
          then (Inl auth_ErrInvalidCredentials, w1)
          else
            (case generateToken cfg now1 now2 now3 u of
               Inl err \<Rightarrow> (Inl err, w1)
             | Inr (token, expiresAt) \<Rightarrow>
                 (Inr \<lparr>resp_Token = token, resp_User = userToUserInfo u,
                       resp_ExpiresAt = expiresAt\<rparr>, w1))))"

text \<open>
  \<open>ValidateToken\<close> reads the clock twice: \<open>now_parse\<close> is the library's reading inside
  \<open>ParseWithClaims\<close>, \<open>now\<close> the service's own reading in its expiry check. Every error
  of the parser, the parser's own expiry error included, becomes \<open>ErrInvalidToken\<close>.
\<close>

definition ValidateToken ::
    "AuthConfig \<Rightarrow> time \<Rightarrow> time \<Rightarrow> tokenString \<Rightarrow> World \<Rightarrow> (error + UserInfo) \<times> World" where
  "ValidateToken cfg now_parse now tokenString w =
     (case jwt_ParseWithClaims now_parse tokenString
             (\<lambda>m. if \<not> is_SigningMethodHMAC m then Inl auth_ErrInvalidToken
                  else Inr (JWTSecret cfg)) of
        Inl err \<Rightarrow> (Inl auth_ErrInvalidToken, w)
      | Inr token \<Rightarrow>
          if \<not> Valid token then (Inl auth_ErrInvalidToken, w)
          else
     (case ExpiresAt (Claims token) of
        None \<Rightarrow> (Inl NilDereference, w)
      | Some exp \<Rightarrow>
          if exp < now then (Inl auth_ErrTokenExpired, w)
          else
     (case GetUserByID (UserID (Claims token)) w of
        (Inl err, w1) \<Rightarrow>
          if err = storage_ErrUserNotFound then (Inl auth_ErrInvalidToken, w1)
          else (Inl err, w1)
      | (Inr user, w1) \<Rightarrow>
     (case deref (heap w1) user of
        None \<Rightarrow> (Inl NilDereference, w1)
      | Some u \<Rightarrow>
          if \<not> IsActive u then (Inl auth_ErrInvalidToken, w1)
          else (Inr (userToUserInfo u), w1)))))"

section \<open>Callers of the store, and concrete scenarios\<close>

text \<open>What a caller reads through the pointer a lookup returned.\<close>

definition observed :: "(error + addr) \<times> World \<Rightarrow> error + User" where
  "observed r =
     (case r of
        (Inl err, w) \<Rightarrow> Inl err
      | (Inr p, w) \<Rightarrow> (case deref (heap w) p of None \<Rightarrow> Inl NilDereference | Some u \<Rightarrow> Inr u))"

text \<open>The three lookups of one record, each by the record's own key.\<close>

definition lookups :: "User \<Rightarrow> (World \<Rightarrow> (error + addr) \<times> World) list" where
  "lookups u = [GetUserByID (ID u), GetUserByEmail (Email u), GetUserByUsername (Username u)]"

text \<open>
  A caller of a mutating operation builds the \<open>User\<close> value as an object of its own and
  passes the address; \<open>run\<close> makes a sequence of such calls, whatever each one returns.
\<close>

datatype call = Create time time User | Update time User | Delete string

fun call_store :: "call \<Rightarrow> World \<Rightarrow> (error + unit) \<times> World" where
  "call_store (Create now1 now2 u) w = (case new_User u w of (p, w1) \<Rightarrow> CreateUser now1 now2 p w1)"
| "call_store (Update now u) w = (case new_User u w of (p, w1) \<Rightarrow> UpdateUser now p w1)"
| "call_store (Delete ident) w = DeleteUser ident w"

fun run :: "call list \<Rightarrow> World \<Rightarrow> World" where
  "run [] w = w"
| "run (c # cs) w = run cs (snd (call_store c w))"

definition alice :: User where
  "alice = \<lparr>ID = ''u1'', Email = ''a@x.com'', Username = ''alice'', PasswordHash = ''h1'',
            FirstName = ''A'', LastName = ''A'', CreatedAt = 0, UpdatedAt = 0, IsActive = False\<rparr>"

definition bob :: User where
  "bob = \<lparr>ID = ''u2'', Email = ''b@x.com'', Username = ''bob'', PasswordHash = ''h2'',
          FirstName = ''B'', LastName = ''B'', CreatedAt = 0, UpdatedAt = 0, IsActive = False\<rparr>"

definition alice_stored :: User where
  "alice_stored = alice\<lparr>CreatedAt := 100, UpdatedAt := 100, IsActive := True\<rparr>"

definition one_object :: World where
  "one_object = snd (new_User alice init_World)"

definition two_users :: World where
  "two_users = run [Create 100 100 alice, Create 200 200 bob] init_World"

definition rename_clash :: call where
  "rename_clash = Update 300 (alice\<lparr>Email := ''c@x.com'', Username := ''bob''\<rparr>)"

definition dangling :: World where
  "dangling = run [Create 100 100 alice, Create 200 200 bob, rename_clash, Delete ''u1''] init_World"

definition deactivated :: World where
  "deactivated = run [Update 300 alice] two_users"

text \<open>
  The same failing rename, made on the second user, followed by the creation of a third
  user under the email the second user's stored record still carries, and by the
  deletion of the second user.
\<close>

definition dave :: User where
  "dave = \<lparr>ID = ''u3'', Email = ''b@x.com'', Username = ''dave'', PasswordHash = ''h3'',
           FirstName = ''D'', LastName = ''D'', CreatedAt = 0, UpdatedAt = 0, IsActive = False\<rparr>"

definition dave_stored :: User where
  "dave_stored = dave\<lparr>CreatedAt := 400, UpdatedAt := 400, IsActive := True\<rparr>"

definition bob_rename_clash :: call where
  "bob_rename_clash = Update 300 (bob\<lparr>Email := ''c@x.com'', Username := ''alice''\<rparr>)"

definition before_dave :: World where
  "before_dave = run [Create 100 100 alice, Create 200 200 bob, bob_rename_clash] init_World"

definition after_dave :: World where
  "after_dave = run [Create 400 400 dave, Delete ''u2''] before_dave"

definition demo_cfg :: AuthConfig where
  "demo_cfg = \<lparr>JWTSecret = ''k'', TokenDuration = 1000000000, BCryptCost = 10, SessionTimeout = 0\<rparr>"

definition demo_claims :: JWTClaims where
  "demo_claims = \<lparr>UserID = ''u1'', claims_Email = ''a@x.com'', claims_Username = ''alice'',
                  ExpiresAt = Some 1000000000, IssuedAt = Some 0, NotBefore = Some 0,
                  Issuer = ''login-app'', Subject = ''u1''\<rparr>"

definition demo_token :: tokenString where
  "demo_token = Compact HS256 demo_claims (MAC HS256 ''k'' (HS256, demo_claims))"

definition demo_bcrypt :: "string \<Rightarrow> int \<Rightarrow> error + string" where
  "demo_bcrypt password cost = Inr (''$'' @ password)"

definition demo_compare :: "string \<Rightarrow> string \<Rightarrow> error option" where
  "demo_compare hashedPassword password =
     (if hashedPassword = ''$'' @ password then None else Some (lib_error ''mismatch''))"

definition demo_bytes :: "8 word list" where
  "demo_bytes = [1, 35, 69, 103, 137, 171, 205, 239, 1, 35, 69, 103, 137, 171, 205, 239]"

definition demo_req :: RegisterRequest where
  "demo_req = \<lparr>reg_Email = ''a@x.com'', reg_Username = ''alice'', reg_Password = ''secret1'',
               reg_FirstName = ''A'', reg_LastName = ''A''\<rparr>"

definition registered :: "(error + LoginResponse) \<times> World" where
  "registered =
     Register demo_cfg demo_bcrypt (Inr demo_bytes) 1700 1700 1700 1700 1700 demo_req init_World"

section \<open>Auxiliary facts\<close>

lemma deref_less: "deref h p = Some u \<Longrightarrow> p < length h"
  by (auto simp: deref_def split: if_splits)

lemma heap_one: "heap one_object = [alice]"
  by (simp add: one_object_def new_User_def init_World_def)

lemma store_one: "store one_object = NewMemoryUserStore"
  by (simp add: one_object_def new_User_def init_World_def)

lemma heap_two:
  "heap two_users = [alice, alice_stored, bob, bob\<lparr>CreatedAt := 200, UpdatedAt := 200, IsActive := True\<rparr>]"
  by (simp add: two_users_def init_World_def NewMemoryUserStore_def new_User_def CreateUser_def
      deref_def alice_def alice_stored_def bob_def Let_def)

lemma store_two:
  "store two_users =
     \<lparr>users = [''u1'' \<mapsto> 1, ''u2'' \<mapsto> 3],
      emailIdx = [''a@x.com'' \<mapsto> ''u1'', ''b@x.com'' \<mapsto> ''u2''],
      usernameIdx = [''alice'' \<mapsto> ''u1'', ''bob'' \<mapsto> ''u2'']\<rparr>"
  by (simp add: two_users_def init_World_def NewMemoryUserStore_def new_User_def CreateUser_def
      deref_def alice_def bob_def Let_def numeral_3_eq_3)

lemma dangling_from_two_users: "dangling = run [rename_clash, Delete ''u1''] two_users"
  by (simp add: dangling_def two_users_def)

lemma created_store:
  assumes "CreateUser now1 now2 user w = (Inr (), w1)" and "deref (heap w) user = Some u"
  shows "heap w1 = heap w @ [u\<lparr>CreatedAt := now1, UpdatedAt := now2, IsActive := True\<rparr>]"
    and "users (store w1) (ID u) = Some (length (heap w))"
    and "emailIdx (store w1) (Email u) = Some (ID u)"
    and "usernameIdx (store w1) (Username u) = Some (ID u)"
  using assms by (auto simp: CreateUser_def new_User_def Let_def split: if_splits)

lemma observed_lookups:
  assumes "users (store w) (ID u) = Some a" and "emailIdx (store w) (Email u) = Some (ID u)"
    and "usernameIdx (store w) (Username u) = Some (ID u)" and "deref (heap w) a = Some r"
    and "get \<in> set (lookups u)"
  shows "\<exists>p w2. get w = (Inr p, w2) \<and> p = length (heap w) \<and> heap w2 = heap w @ [r]
           \<and> store w2 = store w"
  using assms
  by (auto simp: lookups_def GetUserByID_def GetUserByEmail_def GetUserByUsername_def new_User_def)

lemma NewNumericDate_le: "NewNumericDate t \<le> t"
  by (simp add: NewNumericDate_def TimePrecision_def)

lemma NewNumericDate_demo: "NewNumericDate 0 = 0" "NewNumericDate 1000000000 = 1000000000"
  by (simp_all add: NewNumericDate_def TimePrecision_def)

lemma generateToken_eq:
  "generateToken cfg now1 now2 now3 u =
     Inr (Compact HS256
            \<lparr>UserID = ID u, claims_Email = Email u, claims_Username = Username u,
             ExpiresAt = Some (NewNumericDate (now1 + TokenDuration cfg)),
             IssuedAt = Some (NewNumericDate now2), NotBefore = Some (NewNumericDate now3),
             Issuer = ''login-app'', Subject = ID u\<rparr>
            (MAC HS256 (JWTSecret cfg)
               (HS256,
                \<lparr>UserID = ID u, claims_Email = Email u, claims_Username = Username u,
                 ExpiresAt = Some (NewNumericDate (now1 + TokenDuration cfg)),
                 IssuedAt = Some (NewNumericDate now2), NotBefore = Some (NewNumericDate now3),
                 Issuer = ''login-app'', Subject = ID u\<rparr>)),
          now1 + TokenDuration cfg)"
  by (simp add: generateToken_def jwt_SignedString_def Let_def)

lemma demo_token_issued: "generateToken demo_cfg 0 0 0 alice_stored = Inr (demo_token, 1000000000)"
  apply (simp add: generateToken_def jwt_SignedString_def Let_def)
  apply (simp add: demo_cfg_def NewNumericDate_demo)
  apply (simp add: demo_token_def demo_claims_def alice_def alice_stored_def)
  done

lemma demo_id: "generateID (Inr demo_bytes) = Inr ''0123456789abcdef0123456789abcdef''"
  by (simp add: generateID_def hex_EncodeToString_def demo_bytes_def hexdigit_def)

lemma heap_deactivated:
  "heap deactivated = heap two_users @ [alice, alice\<lparr>UpdatedAt := 300\<rparr>]"
  by (simp add: deactivated_def UpdateUser_def new_User_def heap_two store_two deref_def alice_def
      alice_stored_def Let_def)

lemma store_deactivated:
  "store deactivated = (store two_users)\<lparr>users := (users (store two_users))(''u1'' \<mapsto> 5)\<rparr>"
  by (simp add: deactivated_def UpdateUser_def new_User_def heap_two store_two deref_def alice_def
      alice_stored_def Let_def eval_nat_numeral)

lemma registered_eq:
  "registered =
     (Inr \<lparr>resp_Token = Compact HS256
            \<lparr>UserID = ''0123456789abcdef0123456789abcdef'', claims_Email = ''a@x.com'',
             claims_Username = ''alice'',
             ExpiresAt = Some (NewNumericDate (1700 + 1000000000)),
             IssuedAt = Some (NewNumericDate 1700), NotBefore = Some (NewNumericDate 1700),
             Issuer = ''login-app'', Subject = ''0123456789abcdef0123456789abcdef''\<rparr>
            (MAC HS256 ''k''
               (HS256, \<lparr>UserID = ''0123456789abcdef0123456789abcdef'', claims_Email = ''a@x.com'',
                 claims_Username = ''alice'',
                 ExpiresAt = Some (NewNumericDate (1700 + 1000000000)),
                 IssuedAt = Some (NewNumericDate 1700), NotBefore = Some (NewNumericDate 1700),
                 Issuer = ''login-app'', Subject = ''0123456789abcdef0123456789abcdef''\<rparr>)),
           resp_User = \<lparr>info_ID = ''0123456789abcdef0123456789abcdef'', info_Email = ''a@x.com'',
              info_Username = ''alice'', info_FirstName = ''A'', info_LastName = ''A'',
              info_CreatedAt = 0\<rparr>,
           resp_ExpiresAt = 1700 + 1000000000\<rparr>,
      \<lparr>heap = [\<lparr>ID = ''0123456789abcdef0123456789abcdef'', Email = ''a@x.com'',
                 Username = ''alice'', PasswordHash = ''$secret1'', FirstName = ''A'',
                 LastName = ''A'', CreatedAt = 0, UpdatedAt = 0, IsActive = False\<rparr>,
               \<lparr>ID = ''0123456789abcdef0123456789abcdef'', Email = ''a@x.com'',
                 Username = ''alice'', PasswordHash = ''$secret1'', FirstName = ''A'',
                 LastName = ''A'', CreatedAt = 1700, UpdatedAt = 1700, IsActive = True\<rparr>],
        store = \<lparr>users = [''0123456789abcdef0123456789abcdef'' \<mapsto> 1],
                  emailIdx = [''a@x.com'' \<mapsto> ''0123456789abcdef0123456789abcdef''],
                  usernameIdx = [''alice'' \<mapsto> ''0123456789abcdef0123456789abcdef'']\<rparr>\<rparr>)"
  unfolding registered_def Register_def
  apply (simp add: demo_id GetUserByEmail_def GetUserByUsername_def init_World_def
      NewMemoryUserStore_def hashPassword_def demo_bcrypt_def demo_req_def new_User_def)
  apply (simp add: CreateUser_def deref_def new_User_def Let_def generateToken_def
      jwt_SignedString_def demo_cfg_def userToUserInfo_def)
  done

lemma parse_rejects_expired:
  assumes "ExpiresAt claims = Some exp" and "exp \<le> now_parse"
  shows "ValidateToken cfg now_parse now (Compact m claims sig) w = (Inl auth_ErrInvalidToken, w)"
  using assms
  by (simp add: ValidateToken_def jwt_ParseWithClaims_def jwt_Validate_def split: sum.splits)

lemma precheck_cases:
  "(case r of (Inr x, w1) \<Rightarrow> (Inl e1, w1)
            | (Inl NilDereference, w1) \<Rightarrow> (Inl NilDereference, w1)
            | (Inl _, w1) \<Rightarrow> K w1) = (Inr resp, w') \<Longrightarrow> K (snd r) = (Inr resp, w')"
  by (auto split: prod.splits sum.splits error.splits)

lemma Register_created_zero:
  assumes "Register cfg gen rnd now1 now2 now3 now4 now5 req w = (Inr resp, w')"
  shows "info_CreatedAt (resp_User resp) = 0"
proof -
  have cr: "\<And>p w1 w2 u. CreateUser now1 now2 p w1 = (Inr (), w2) \<Longrightarrow> deref (heap w1) p = Some u
              \<Longrightarrow> deref (heap w2) p = Some u"
    by (auto simp: CreateUser_def new_User_def deref_def Let_def nth_append
        split: if_splits option.splits)
  note a = precheck_cases[OF precheck_cases[OF assms[unfolded Register_def]]]
  show ?thesis
    using a
    apply (simp split: sum.splits prod.splits option.splits add: generateToken_eq)
    apply (auto simp: new_User_def userToUserInfo_def dest!: cr)
    apply (auto simp: deref_def split: if_splits)
    done
qed

lemma deref_fresh: "deref (h @ [u]) (length h) = Some u"
  by (simp add: deref_def)

lemma GetUserByID_eq:
  "GetUserByID k w =
     (case users (store w) k of
        None \<Rightarrow> (Inl storage_ErrUserNotFound, w)
      | Some a \<Rightarrow>
          (case deref (heap w) a of
             None \<Rightarrow> (Inl NilDereference, w)
           | Some u \<Rightarrow> (Inr (length (heap w)), w\<lparr>heap := heap w @ [u]\<rparr>)))"
  by (simp add: GetUserByID_def new_User_def split: option.splits)

lemma parse_signed:
  "is_SigningMethodHMAC m \<Longrightarrow>
   jwt_ParseWithClaims now_parse (Compact m claims (MAC m (JWTSecret cfg) (m, claims)))
     (\<lambda>m. if \<not> is_SigningMethodHMAC m then Inl auth_ErrInvalidToken else Inr (JWTSecret cfg))
   = (if jwt_Validate now_parse claims then Inr \<lparr>Method = m, Claims = claims, Valid = True\<rparr>
      else Inl ErrTokenInvalidClaims)"
  by (simp add: jwt_ParseWithClaims_def jwt_Verify_def)

lemma parse_Inr:
  "jwt_ParseWithClaims now_parse (Compact m claims sig) keyFunc = Inr token
   \<Longrightarrow> Claims token = claims \<and> Valid token"
  by (auto simp: jwt_ParseWithClaims_def split: sum.splits if_splits)

lemma parse_Malformed: "jwt_ParseWithClaims now_parse (Malformed x) keyFunc = Inl ErrTokenMalformed"
  by (simp add: jwt_ParseWithClaims_def)

lemma ValidateToken_parsed:
  assumes "jwt_ParseWithClaims now_parse tokenString
             (\<lambda>m. if \<not> is_SigningMethodHMAC m then Inl auth_ErrInvalidToken
                  else Inr (JWTSecret cfg)) = Inr token"
    and "Valid token" and "ExpiresAt (Claims token) = Some exp" and "\<not> exp < now"
  shows "ValidateToken cfg now_parse now tokenString w =
     (case users (store w) (UserID (Claims token)) of
        None \<Rightarrow> (Inl auth_ErrInvalidToken, w)
      | Some a \<Rightarrow>
          (case deref (heap w) a of
             None \<Rightarrow> (Inl NilDereference, w)
           | Some u \<Rightarrow>
               (if \<not> IsActive u then Inl auth_ErrInvalidToken else Inr (userToUserInfo u),
                w\<lparr>heap := heap w @ [u]\<rparr>)))"
  using assms
  by (simp add: ValidateToken_def GetUserByID_eq deref_fresh split: option.splits)

lemma TokenExpired_only_between_readings:
  assumes "ValidateToken cfg now_parse now tokenString w = (Inl auth_ErrTokenExpired, w')"
  shows "\<exists>m claims sig exp. tokenString = Compact m claims sig \<and> ExpiresAt claims = Some exp
           \<and> now_parse < exp \<and> exp < now"
proof (cases tokenString)
  case (Malformed x)
  with assms show ?thesis
    by (simp add: ValidateToken_def parse_Malformed)
next
  case (Compact m claims sig)
  from assms obtain token where p: "jwt_ParseWithClaims now_parse tokenString
             (\<lambda>m. if \<not> is_SigningMethodHMAC m then Inl auth_ErrInvalidToken
                  else Inr (JWTSecret cfg)) = Inr token"
    by (auto simp: ValidateToken_def split: sum.splits)
  from parse_Inr[OF p[unfolded Compact]] have c: "Claims token = claims" "Valid token"
    by simp_all
  from p Compact have v: "jwt_Validate now_parse claims"
    by (auto simp: jwt_ParseWithClaims_def split: sum.splits if_splits)
  show ?thesis
  proof (cases "ExpiresAt claims")
    case None
    with assms p c show ?thesis
      by (simp add: ValidateToken_def)
  next
    case (Some exp)
    with v have a: "now_parse < exp"
      by (simp add: jwt_Validate_def)
    have "exp < now"
    proof (rule ccontr)
      assume n: "\<not> exp < now"
      from Some c have e: "ExpiresAt (Claims token) = Some exp" by simp
      from assms show False
        unfolding ValidateToken_parsed[OF p c(2) e n]
        by (auto split: option.splits if_splits)
    qed
    with a Some Compact show ?thesis by blast
  qed
qed

lemma UpdateUser_failure_frame:
  assumes "UpdateUser now user w = (Inl e, w')"
  shows "heap w' = heap w \<and> users (store w') = users (store w)
           \<and> usernameIdx (store w') = usernameIdx (store w)
           \<and> (e \<noteq> storage_ErrUserExists \<longrightarrow> w' = w)"
  using assms
  by (auto simp: UpdateUser_def Let_def new_User_def split: option.splits if_splits prod.splits)

lemma UpdateUser_email_clash_unchanged:
  assumes "deref (heap w) user = Some u" and "users (store w) (ID u) = Some a"
    and "deref (heap w) a = Some existingUser" and "Email u \<noteq> Email existingUser"
    and "emailIdx (store w) (Email u) \<noteq> None"
  shows "UpdateUser now user w = (Inl storage_ErrUserExists, w)"
  using assms by (simp add: UpdateUser_def Let_def)

lemma before_dave_from_two_users: "before_dave = run [bob_rename_clash] two_users"
  by (simp add: before_dave_def two_users_def)

lemma heap_before_dave:
  "heap before_dave = heap two_users @ [bob\<lparr>Email := ''c@x.com'', Username := ''alice''\<rparr>]"
  by (simp add: before_dave_from_two_users bob_rename_clash_def UpdateUser_def new_User_def
      heap_two store_two deref_def alice_def alice_stored_def bob_def Let_def)

lemma store_before_dave:
  "store before_dave =
     \<lparr>users = [''u1'' \<mapsto> 1, ''u2'' \<mapsto> 3],
      emailIdx = [''a@x.com'' \<mapsto> ''u1'', ''c@x.com'' \<mapsto> ''u2''],
      usernameIdx = [''alice'' \<mapsto> ''u1'', ''bob'' \<mapsto> ''u2'']\<rparr>"
  by (auto simp: before_dave_from_two_users bob_rename_clash_def UpdateUser_def new_User_def
      heap_two store_two deref_def alice_def alice_stored_def bob_def Let_def fun_eq_iff)

lemma NewNumericDate_half: "NewNumericDate 500000000 = 0" "NewNumericDate 1500000000 = 1000000000"
  by (simp_all add: NewNumericDate_def TimePrecision_def)

lemma demo_token_issued_half:
  "generateToken demo_cfg 500000000 500000000 500000000 alice_stored = Inr (demo_token, 1500000000)"
  apply (simp add: generateToken_def jwt_SignedString_def Let_def)
  apply (simp add: demo_cfg_def NewNumericDate_half)
  apply (simp add: demo_token_def demo_claims_def alice_def alice_stored_def)
  done

lemma stored_record_after_call:
  assumes "deref (heap w) user = Some u"
  shows "(CreateUser now1 now2 user w = (Inr (), w')
          \<longrightarrow> observed (GetUserByID (ID u) w')
                = Inr (u\<lparr>CreatedAt := now1, UpdatedAt := now2, IsActive := True\<rparr>))
       \<and> (UpdateUser now user w = (Inr (), w')
          \<longrightarrow> observed (GetUserByID (ID u) w') = Inr (u\<lparr>UpdatedAt := now\<rparr>))"
  using assms
  by (auto simp: CreateUser_def UpdateUser_def observed_def GetUserByID_def new_User_def deref_def
      Let_def nth_append split: if_splits option.splits)

lemma lookups_agree_after_create:
  assumes "CreateUser now1 now2 user w = (Inr (), w1)" and "deref (heap w) user = Some u"
  shows "\<forall>get \<in> set (lookups u).
           observed (get w1) = Inr (u\<lparr>CreatedAt := now1, UpdatedAt := now2, IsActive := True\<rparr>)
         \<and> (\<forall>p w2 v. get w1 = (Inr p, w2) \<longrightarrow>
              (\<forall>get' \<in> set (lookups u).
                 observed (get' (assign p v w2))
                   = Inr (u\<lparr>CreatedAt := now1, UpdatedAt := now2, IsActive := True\<rparr>)))"
proof (intro ballI conjI allI impI)
  let ?r = "u\<lparr>CreatedAt := now1, UpdatedAt := now2, IsActive := True\<rparr>"
  note cs = created_store[OF assms]
  have d1: "deref (heap w1) (length (heap w)) = Some ?r"
    by (simp add: cs(1) deref_def)
  fix get assume g: "get \<in> set (lookups u)"
  from observed_lookups[OF cs(2) cs(3) cs(4) d1 g]
  obtain p w2 where gw: "get w1 = (Inr p, w2)" "p = length (heap w1)"
      "heap w2 = heap w1 @ [?r]" "store w2 = store w1"
    by blast
  show "observed (get w1) = Inr ?r"
    by (simp add: observed_def gw deref_def)
  fix p' w2' v get'
  assume h: "get w1 = (Inr p', w2')" and g': "get' \<in> set (lookups u)"
  from h gw have eq: "p' = p" "w2' = w2" by simp_all
  let ?w = "assign p v w2"
  have hp: "heap ?w = heap w1 @ [v]" "store ?w = store w1"
    by (simp_all add: assign_def gw)
  have d2: "deref (heap ?w) (length (heap w)) = Some ?r"
    by (simp add: hp cs(1) deref_def nth_append)
  from observed_lookups[of ?w u "length (heap w)" ?r get'] cs d2 g' hp
  obtain q w3 where "get' ?w = (Inr q, w3)" "q = length (heap ?w)" "heap w3 = heap ?w @ [?r]"
    by auto
  then show "observed (get' (assign p' v w2')) = Inr ?r"
    by (simp add: observed_def eq deref_def)
qed

lemma Login_failure_cases:
  "(emailIdx (store w) (login_Email req) = None
      \<longrightarrow> fst (Login cfg cmp now1 now2 now3 req w) = Inl auth_ErrInvalidCredentials)
   \<and> (emailIdx (store w) (login_Email req) = Some ident \<and> users (store w) ident = Some a
        \<and> deref (heap w) a = Some u \<and> \<not> IsActive u
      \<longrightarrow> fst (Login cfg cmp now1 now2 now3 req w) = Inl auth_ErrInvalidCredentials)
   \<and> (emailIdx (store w) (login_Email req) = Some ident \<and> users (store w) ident = Some a
        \<and> deref (heap w) a = Some u \<and> IsActive u
        \<and> cmp (PasswordHash u) (login_Password req) \<noteq> None
      \<longrightarrow> fst (Login cfg cmp now1 now2 now3 req w) = Inl auth_ErrInvalidCredentials)"
  by (auto simp: Login_def GetUserByEmail_def new_User_def deref_def nth_append verifyPassword_def)

section \<open>Claims about the store\<close>

text \<open>
  Claim C1 (a failing \<open>UpdateUser\<close> leaves the record map and both indexes as they
  were) at the input where the code does otherwise. Two users are stored, and the
  first is updated with a new, free email and with the username of the second. The call
  returns \<open>ErrUserExists\<close>; the email index had the old email and not the new one
  before the call, and has the new email and not the old one after it; the username
  index is as before, and the stored record still carries the old email.
\<close>

theorem UpdateUser_failure_retargets_email:
  "fst (call_store rename_clash two_users) = Inl storage_ErrUserExists
   \<and> emailIdx (store two_users) ''a@x.com'' = Some ''u1''
   \<and> emailIdx (store two_users) ''c@x.com'' = None
   \<and> emailIdx (store (snd (call_store rename_clash two_users))) ''a@x.com'' = None
   \<and> emailIdx (store (snd (call_store rename_clash two_users))) ''c@x.com'' = Some ''u1''
   \<and> usernameIdx (store (snd (call_store rename_clash two_users))) = usernameIdx (store two_users)
   \<and> map_sum id Email (observed (GetUserByID ''u1'' (snd (call_store rename_clash two_users))))
       = Inr ''a@x.com''"
  by (simp add: rename_clash_def heap_two store_two new_User_def UpdateUser_def GetUserByID_def
      observed_def deref_def alice_def alice_stored_def bob_def Let_def)

text \<open>
  Claim C4. \<open>CreateUser\<close> on a record whose identifier is a key of the record map, or
  whose email or username is a key of its index, returns \<open>ErrUserExists\<close> and the
  world it leaves is the world it found. On a record whose three keys are all free it
  succeeds: the heap grows by exactly one object, the caller's record with both
  timestamps replaced by the store's clock readings and \<open>IsActive\<close> set; that object is
  not the caller's; the record map sends the identifier to it, and both indexes send
  the email and the username to the identifier.
\<close>

theorem CreateUser_all_or_nothing:
  assumes "deref (heap w) user = Some u"
  shows "(users (store w) (ID u) \<noteq> None \<or> emailIdx (store w) (Email u) \<noteq> None
            \<or> usernameIdx (store w) (Username u) \<noteq> None
          \<longrightarrow> CreateUser now1 now2 user w = (Inl storage_ErrUserExists, w))
       \<and> (users (store w) (ID u) = None \<and> emailIdx (store w) (Email u) = None
            \<and> usernameIdx (store w) (Username u) = None
          \<longrightarrow> (\<exists>w'. CreateUser now1 now2 user w = (Inr (), w')
                \<and> heap w' = heap w @ [u\<lparr>CreatedAt := now1, UpdatedAt := now2, IsActive := True\<rparr>]
                \<and> length (heap w) \<noteq> user
                \<and> users (store w') = (users (store w))(ID u \<mapsto> length (heap w))
                \<and> emailIdx (store w') = (emailIdx (store w))(Email u \<mapsto> ID u)
                \<and> usernameIdx (store w') = (usernameIdx (store w))(Username u \<mapsto> ID u)))"
  using assms deref_less[OF assms]
  by (auto simp: CreateUser_def new_User_def Let_def)

theorem CreateUser_all_or_nothing_witness:
  "deref (heap one_object) 0 = Some alice
   \<and> fst (CreateUser 100 100 0 one_object) = Inr ()
   \<and> heap (snd (CreateUser 100 100 0 one_object)) = [alice, alice_stored]
   \<and> users (store (snd (CreateUser 100 100 0 one_object))) (ID alice) = Some 1
   \<and> emailIdx (store (snd (CreateUser 100 100 0 one_object))) (Email alice) = Some (ID alice)
   \<and> usernameIdx (store (snd (CreateUser 100 100 0 one_object))) (Username alice) = Some (ID alice)
   \<and> deref (heap (snd (new_User alice two_users))) 4 = Some alice
   \<and> users (store (snd (new_User alice two_users))) (ID alice) \<noteq> None
   \<and> CreateUser 300 300 4 (snd (new_User alice two_users))
       = (Inl storage_ErrUserExists, snd (new_User alice two_users))"
proof -
  have h: "deref (heap one_object) 0 = Some alice"
    by (simp add: heap_one deref_def)
  have f: "users (store one_object) (ID alice) = None \<and> emailIdx (store one_object) (Email alice) = None
            \<and> usernameIdx (store one_object) (Username alice) = None"
    by (simp add: store_one NewMemoryUserStore_def)
  let ?v = "snd (new_User alice two_users)"
  have h2: "deref (heap ?v) 4 = Some alice"
    by (simp add: new_User_def heap_two deref_def)
  have c: "users (store ?v) (ID alice) \<noteq> None"
    by (simp add: new_User_def store_two alice_def)
  from CreateUser_all_or_nothing[OF h, of 100 100] f
  have ok: "\<exists>w'. CreateUser 100 100 0 one_object = (Inr (), w')
                \<and> heap w' = heap one_object @ [alice\<lparr>CreatedAt := 100, UpdatedAt := 100, IsActive := True\<rparr>]
                \<and> length (heap one_object) \<noteq> 0
                \<and> users (store w') = (users (store one_object))(ID alice \<mapsto> length (heap one_object))
                \<and> emailIdx (store w') = (emailIdx (store one_object))(Email alice \<mapsto> ID alice)
                \<and> usernameIdx (store w') = (usernameIdx (store one_object))(Username alice \<mapsto> ID alice)"
    by blast
  from CreateUser_all_or_nothing[OF h2, of 300 300] c
  have no: "CreateUser 300 300 4 ?v = (Inl storage_ErrUserExists, ?v)"
    by blast
  from ok have "fst (CreateUser 100 100 0 one_object) = Inr ()
   \<and> heap (snd (CreateUser 100 100 0 one_object)) = [alice, alice_stored]
   \<and> users (store (snd (CreateUser 100 100 0 one_object))) (ID alice) = Some 1
   \<and> emailIdx (store (snd (CreateUser 100 100 0 one_object))) (Email alice) = Some (ID alice)
   \<and> usernameIdx (store (snd (CreateUser 100 100 0 one_object))) (Username alice) = Some (ID alice)"
    by (auto simp: heap_one alice_stored_def)
  with h h2 c no show ?thesis by blast
qed

text \<open>
  Claim C5 (for a record that was created and not modified since, the lookups by
  identifier, by email and by username all succeed with the same field values) at the
  inputs where the code does otherwise. A third user is created under a free email and
  all three lookups read its record; the second user, whose failed rename had moved its
  own email index entry away, is then deleted, and the deletion removes the email index
  entry of the third user: the lookups by identifier and by username still read the
  unmodified record, the lookup by email answers \<open>ErrUserNotFound\<close>. The same
  happens to the first user right after its own failed rename of claim C1.
\<close>

theorem lookup_by_email_lost_for_unmodified_record:
  "fst (call_store (Create 400 400 dave) before_dave) = Inr ()
   \<and> observed (GetUserByEmail ''b@x.com'' (snd (call_store (Create 400 400 dave) before_dave)))
       = Inr dave_stored
   \<and> fst (call_store (Delete ''u2'') (snd (call_store (Create 400 400 dave) before_dave))) = Inr ()
   \<and> observed (GetUserByID ''u3'' after_dave) = Inr dave_stored
   \<and> observed (GetUserByUsername ''dave'' after_dave) = Inr dave_stored
   \<and> observed (GetUserByEmail ''b@x.com'' after_dave) = Inl storage_ErrUserNotFound
   \<and> observed (GetUserByID ''u1'' (snd (call_store rename_clash two_users))) = Inr alice_stored
   \<and> observed (GetUserByUsername ''alice'' (snd (call_store rename_clash two_users)))
       = Inr alice_stored
   \<and> observed (GetUserByEmail ''a@x.com'' (snd (call_store rename_clash two_users)))
       = Inl storage_ErrUserNotFound"
  by (simp add: after_dave_def heap_before_dave store_before_dave heap_two store_two
      rename_clash_def CreateUser_def UpdateUser_def DeleteUser_def GetUserByID_def
      GetUserByEmail_def GetUserByUsername_def observed_def new_User_def deref_def
      dave_def dave_stored_def alice_def alice_stored_def bob_def Let_def)

text \<open>
  Claim C9 (the created timestamp is set by the store and an update preserves it) at the
  input where the code does otherwise. The stored record has the created timestamp 100;
  the caller's record, with the same identifier, email and username, has 0; the update
  succeeds, and the stored record then has the created timestamp 0.
\<close>

theorem UpdateUser_overwrites_CreatedAt:
  "map_sum id CreatedAt (observed (GetUserByID ''u1'' two_users)) = Inr 100
   \<and> fst (call_store (Update 300 alice) two_users) = Inr ()
   \<and> map_sum id CreatedAt
        (observed (GetUserByID ''u1'' (snd (call_store (Update 300 alice) two_users)))) = Inr 0"
  by (simp add: heap_two store_two observed_def GetUserByID_def UpdateUser_def new_User_def
      deref_def alice_def alice_stored_def Let_def)

text \<open>
  Claim C10 (every identifier held by an index is a key of the record map in every
  reachable state, so that a lookup through an index never reads a missing record) at
  the state where the code does otherwise. From the empty store, the two creations, the
  failing update of claim C1 and the deletion of the first user leave the email index
  with an entry for an identifier that the record map no longer has, and the lookup by
  that email dereferences the nil pointer.
\<close>

theorem dangling_email_index_panics:
  "emailIdx (store dangling) ''c@x.com'' = Some ''u1''
   \<and> users (store dangling) ''u1'' = None
   \<and> fst (GetUserByEmail ''c@x.com'' dangling) = Inl NilDereference"
  by (simp add: dangling_from_two_users rename_clash_def heap_two store_two new_User_def
      UpdateUser_def DeleteUser_def GetUserByEmail_def deref_def alice_def alice_stored_def
      bob_def Let_def)

section \<open>Claims about the authentication service\<close>

text \<open>
  Claim C2 (a correctly signed token whose expiry lies in the past is refused with
  \<open>ErrTokenExpired\<close>) at the input where the code does otherwise. The token is the one
  the service issues at time 0 for a stored, active user with a lifetime of one second;
  validated at two seconds, with the user still stored, the answer is
  \<open>ErrInvalidToken\<close>: the parser has already refused the expired claim set, and the
  service turns every parser error into \<open>ErrInvalidToken\<close> before its own expiry check.
\<close>

theorem expired_token_is_InvalidToken:
  "generateToken demo_cfg 0 0 0 alice_stored = Inr (demo_token, 1000000000)
   \<and> users (store two_users) ''u1'' = Some 1
   \<and> deref (heap two_users) 1 = Some alice_stored
   \<and> ValidateToken demo_cfg 2000000000 2000000000 demo_token two_users
       = (Inl auth_ErrInvalidToken, two_users)"
  using demo_token_issued
  by (simp add: ValidateToken_def jwt_ParseWithClaims_def jwt_Verify_def jwt_Validate_def
      demo_token_def demo_claims_def demo_cfg_def store_two heap_two deref_def)

text \<open>
  Claim C3 (the view returned by a successful \<open>Register\<close> agrees with the stored record
  on every exposed field) at the input where the code does otherwise. Registration on
  the empty store at clock reading 1700 succeeds; the returned view carries the new
  identifier and the created timestamp 0, Go's zero time, while the record the store
  holds under that identifier has the created timestamp 1700.
\<close>

theorem Register_view_created_zero:
  "map_sum id (\<lambda>resp. info_CreatedAt (resp_User resp)) (fst registered) = Inr 0
   \<and> map_sum id (\<lambda>resp. info_ID (resp_User resp)) (fst registered)
       = Inr ''0123456789abcdef0123456789abcdef''
   \<and> map_sum id CreatedAt
        (observed (GetUserByID ''0123456789abcdef0123456789abcdef'' (snd registered))) = Inr 1700"
  by (simp add: registered_eq observed_def GetUserByID_def new_User_def deref_def)

text \<open>
  Claim C6 (in every store state a login whose email resolves to no record fails with
  \<open>ErrInvalidCredentials\<close>, as a wrong password does) at the state where the code does
  otherwise. In the state of claim C10 the email index holds an entry for an identifier
  that the record map no longer has; a login with that email does not return
  \<open>ErrInvalidCredentials\<close>: the lookup dereferences the nil pointer.
\<close>

theorem Login_panics_on_dangling_email:
  "emailIdx (store dangling) ''c@x.com'' = Some ''u1''
   \<and> users (store dangling) ''u1'' = None
   \<and> fst (Login demo_cfg demo_compare 0 0 0
            \<lparr>login_Email = ''c@x.com'', login_Password = ''secret1''\<rparr> dangling)
       = Inl NilDereference"
  by (simp add: dangling_from_two_users rename_clash_def heap_two store_two new_User_def
      UpdateUser_def DeleteUser_def GetUserByEmail_def Login_def deref_def alice_def
      alice_stored_def bob_def Let_def)

text \<open>
  Claim C7. A token signed with an HMAC method under the configured secret, whose expiry
  claim lies after both clock readings, is answered with \<open>ErrInvalidToken\<close> when the
  record map has no record for its subject or has one that is not active. And whenever
  \<open>ValidateToken\<close> succeeds, the view it returns is the view of the active record that
  the record map holds for the subject.
\<close>

theorem ValidateToken_revoked_subject:
  "(is_SigningMethodHMAC m \<and> ExpiresAt claims = Some exp \<and> now_parse < exp \<and> now \<le> exp
      \<and> (users (store w) (UserID claims) = None
          \<or> (users (store w) (UserID claims) = Some a \<and> deref (heap w) a = Some u \<and> \<not> IsActive u))
    \<longrightarrow> fst (ValidateToken cfg now_parse now
               (Compact m claims (MAC m (JWTSecret cfg) (m, claims))) w) = Inl auth_ErrInvalidToken)
   \<and> (ValidateToken cfg now_parse now tokenString w = (Inr info, w')
    \<longrightarrow> (\<exists>m' claims' sig' a' u'. tokenString = Compact m' claims' sig'
          \<and> users (store w) (UserID claims') = Some a' \<and> deref (heap w) a' = Some u'
          \<and> IsActive u' \<and> info = userToUserInfo u'))"
proof (intro conjI impI)
  let ?tok = "Compact m claims (MAC m (JWTSecret cfg) (m, claims))"
  assume h: "is_SigningMethodHMAC m \<and> ExpiresAt claims = Some exp \<and> now_parse < exp \<and> now \<le> exp
      \<and> (users (store w) (UserID claims) = None
          \<or> (users (store w) (UserID claims) = Some a \<and> deref (heap w) a = Some u \<and> \<not> IsActive u))"
  show "fst (ValidateToken cfg now_parse now ?tok w) = Inl auth_ErrInvalidToken"
  proof (cases "jwt_Validate now_parse claims")
    case False
    with h show ?thesis
      by (simp add: ValidateToken_def parse_signed)
  next
    case True
    with h have p: "jwt_ParseWithClaims now_parse ?tok
             (\<lambda>m. if \<not> is_SigningMethodHMAC m then Inl auth_ErrInvalidToken
                  else Inr (JWTSecret cfg)) = Inr \<lparr>Method = m, Claims = claims, Valid = True\<rparr>"
      by (simp add: parse_signed)
    from h have e: "ExpiresAt (Claims \<lparr>Method = m, Claims = claims, Valid = True\<rparr>) = Some exp"
      "\<not> exp < now" "Valid \<lparr>Method = m, Claims = claims, Valid = True\<rparr>"
      by simp_all
    from h show ?thesis
      unfolding ValidateToken_parsed[OF p e(3) e(1) e(2)]
      by auto
  qed
next
  assume v: "ValidateToken cfg now_parse now tokenString w = (Inr info, w')"
  show "\<exists>m' claims' sig' a' u'. tokenString = Compact m' claims' sig'
          \<and> users (store w) (UserID claims') = Some a' \<and> deref (heap w) a' = Some u'
          \<and> IsActive u' \<and> info = userToUserInfo u'"
  proof (cases tokenString)
    case (Malformed x)
    with v show ?thesis
      by (simp add: ValidateToken_def parse_Malformed)
  next
    case (Compact m' claims' sig')
    from v obtain token where p: "jwt_ParseWithClaims now_parse tokenString
             (\<lambda>m. if \<not> is_SigningMethodHMAC m then Inl auth_ErrInvalidToken
                  else Inr (JWTSecret cfg)) = Inr token"
      by (auto simp: ValidateToken_def split: sum.splits)
    from parse_Inr[OF p[unfolded Compact]] have c: "Claims token = claims'" "Valid token"
      by simp_all
    from v p c obtain exp where e: "ExpiresAt (Claims token) = Some exp" "\<not> exp < now"
      by (auto simp: ValidateToken_def split: option.splits if_splits)
    from v have "\<exists>a' u'. users (store w) (UserID claims') = Some a' \<and> deref (heap w) a' = Some u'
          \<and> IsActive u' \<and> info = userToUserInfo u'"
      unfolding ValidateToken_parsed[OF p c(2) e] c(1)
      by (auto split: option.splits if_splits)
    with Compact show ?thesis by blast
  qed
qed

theorem ValidateToken_revoked_subject_witness:
  "deref (heap deactivated) 5 = Some (alice\<lparr>UpdatedAt := 300\<rparr>)
   \<and> fst (ValidateToken demo_cfg 5 5 demo_token deactivated) = Inl auth_ErrInvalidToken
   \<and> users (store dangling) ''u1'' = None
   \<and> fst (ValidateToken demo_cfg 5 5 demo_token dangling) = Inl auth_ErrInvalidToken
   \<and> ValidateToken demo_cfg 5 5 demo_token two_users
       = (Inr (userToUserInfo alice_stored), snd (ValidateToken demo_cfg 5 5 demo_token two_users))
   \<and> (\<exists>a' u'. users (store two_users) ''u1'' = Some a' \<and> deref (heap two_users) a' = Some u'
          \<and> IsActive u' \<and> userToUserInfo alice_stored = userToUserInfo u')"
proof -
  have t: "demo_token = Compact HS256 demo_claims (MAC HS256 (JWTSecret demo_cfg) (HS256, demo_claims))"
    by (simp add: demo_token_def demo_cfg_def)
  have e: "is_SigningMethodHMAC HS256" "ExpiresAt demo_claims = Some 1000000000"
    "UserID demo_claims = ''u1''"
    by (simp_all add: demo_claims_def)
  have b: "users (store deactivated) ''u1'' = Some 5"
    "deref (heap deactivated) 5 = Some (alice\<lparr>UpdatedAt := 300\<rparr>)" "\<not> IsActive (alice\<lparr>UpdatedAt := 300\<rparr>)"
    by (simp_all add: store_deactivated heap_deactivated store_two heap_two deref_def alice_def)
  have d: "users (store dangling) ''u1'' = None"
    by (simp add: dangling_from_two_users rename_clash_def heap_two store_two new_User_def
      UpdateUser_def DeleteUser_def deref_def alice_def alice_stored_def bob_def Let_def)
  from ValidateToken_revoked_subject[where m = HS256 and claims = demo_claims and exp = 1000000000
      and now_parse = 5 and now = 5 and w = deactivated and cfg = demo_cfg and a = 5
      and u = "alice\<lparr>UpdatedAt := 300\<rparr>"] e b
  have 1: "fst (ValidateToken demo_cfg 5 5 demo_token deactivated) = Inl auth_ErrInvalidToken"
    by (simp add: t)
  from ValidateToken_revoked_subject[where m = HS256 and claims = demo_claims and exp = 1000000000
      and now_parse = 5 and now = 5 and w = dangling and cfg = demo_cfg] e d
  have 2: "fst (ValidateToken demo_cfg 5 5 demo_token dangling) = Inl auth_ErrInvalidToken"
    by (simp add: t)
  have "fst (ValidateToken demo_cfg 5 5 demo_token two_users) = Inr (userToUserInfo alice_stored)"
    by (simp add: ValidateToken_def jwt_ParseWithClaims_def jwt_Verify_def jwt_Validate_def
      demo_token_def demo_claims_def demo_cfg_def store_two heap_two deref_def GetUserByID_def
      new_User_def alice_stored_def alice_def)
  then have 3: "ValidateToken demo_cfg 5 5 demo_token two_users
       = (Inr (userToUserInfo alice_stored), snd (ValidateToken demo_cfg 5 5 demo_token two_users))"
    by (simp add: prod_eq_iff)
  from ValidateToken_revoked_subject[where tokenString = demo_token and cfg = demo_cfg
      and now_parse = 5 and now = 5 and w = two_users and info = "userToUserInfo alice_stored"
      and w' = "snd (ValidateToken demo_cfg 5 5 demo_token two_users)"] 3
  have 4: "\<exists>a' u'. users (store two_users) ''u1'' = Some a' \<and> deref (heap two_users) a' = Some u'
          \<and> IsActive u' \<and> userToUserInfo alice_stored = userToUserInfo u'"
    by (auto simp: demo_token_def demo_claims_def)
  from b(2) d 1 2 3 4 show ?thesis by blast
qed

text \<open>
  Claim C8, with the expiry read from the token. For an active user held by the store,
  \<open>generateToken\<close> returns a token together with the expiry instant, and
  \<open>ValidateToken\<close> on that token succeeds with the user's identifier, email, username,
  first and last name and created timestamp, and nothing else, provided that the
  parser's clock reading is not before the token's not-before claim and lies before the
  token's expiry claim, and the service's reading is not after that claim. The expiry
  claim is the returned expiry instant truncated to whole seconds.
\<close>

theorem token_round_trip:
  assumes "users (store w) (ID u) = Some a" and "deref (heap w) a = Some u" and "IsActive u"
    and "NewNumericDate now3 \<le> now_parse"
    and "now_parse < NewNumericDate (now1 + TokenDuration cfg)"
    and "now \<le> NewNumericDate (now1 + TokenDuration cfg)"
  shows "\<exists>tok. generateToken cfg now1 now2 now3 u = Inr (tok, now1 + TokenDuration cfg)
           \<and> fst (ValidateToken cfg now_parse now tok w)
               = Inr \<lparr>info_ID = ID u, info_Email = Email u, info_Username = Username u,
                      info_FirstName = FirstName u, info_LastName = LastName u,
                      info_CreatedAt = CreatedAt u\<rparr>"
proof -
  let ?claims = "\<lparr>UserID = ID u, claims_Email = Email u, claims_Username = Username u,
             ExpiresAt = Some (NewNumericDate (now1 + TokenDuration cfg)),
             IssuedAt = Some (NewNumericDate now2), NotBefore = Some (NewNumericDate now3),
             Issuer = ''login-app'', Subject = ID u\<rparr>"
  let ?tok = "Compact HS256 ?claims (MAC HS256 (JWTSecret cfg) (HS256, ?claims))"
  have g: "generateToken cfg now1 now2 now3 u = Inr (?tok, now1 + TokenDuration cfg)"
    by (rule generateToken_eq)
  have v: "jwt_Validate now_parse ?claims"
    using assms(4,5) by (simp add: jwt_Validate_def)
  have p: "jwt_ParseWithClaims now_parse ?tok
             (\<lambda>m. if \<not> is_SigningMethodHMAC m then Inl auth_ErrInvalidToken
                  else Inr (JWTSecret cfg)) = Inr \<lparr>Method = HS256, Claims = ?claims, Valid = True\<rparr>"
    using v by (simp add: parse_signed)
  have e: "Valid \<lparr>Method = HS256, Claims = ?claims, Valid = True\<rparr>"
    "ExpiresAt (Claims \<lparr>Method = HS256, Claims = ?claims, Valid = True\<rparr>)
       = Some (NewNumericDate (now1 + TokenDuration cfg))"
    "\<not> NewNumericDate (now1 + TokenDuration cfg) < now"
    using assms(6) by simp_all
  have "fst (ValidateToken cfg now_parse now ?tok w) = Inr (userToUserInfo u)"
    unfolding ValidateToken_parsed[OF p e]
    using assms(1,2,3) by simp
  then have "fst (ValidateToken cfg now_parse now ?tok w)
               = Inr \<lparr>info_ID = ID u, info_Email = Email u, info_Username = Username u,
                      info_FirstName = FirstName u, info_LastName = LastName u,
                      info_CreatedAt = CreatedAt u\<rparr>"
    by (simp add: userToUserInfo_def)
  with g show ?thesis by blast
qed

theorem token_round_trip_witness:
  "users (store two_users) (ID alice_stored) = Some 1
   \<and> deref (heap two_users) 1 = Some alice_stored
   \<and> IsActive alice_stored
   \<and> NewNumericDate 0 \<le> (5::int)
   \<and> (5::int) < NewNumericDate (0 + TokenDuration demo_cfg)
   \<and> generateToken demo_cfg 0 0 0 alice_stored = Inr (demo_token, 1000000000)
   \<and> fst (ValidateToken demo_cfg 5 5 demo_token two_users)
       = Inr \<lparr>info_ID = ''u1'', info_Email = ''a@x.com'', info_Username = ''alice'',
              info_FirstName = ''A'', info_LastName = ''A'', info_CreatedAt = 100\<rparr>"
proof -
  have h: "users (store two_users) (ID alice_stored) = Some 1"
    "deref (heap two_users) 1 = Some alice_stored" "IsActive alice_stored"
    by (simp_all add: store_two heap_two deref_def alice_stored_def alice_def)
  have n: "NewNumericDate 0 \<le> (5::int)" "(5::int) < NewNumericDate (0 + TokenDuration demo_cfg)"
    "(5::int) \<le> NewNumericDate (0 + TokenDuration demo_cfg)"
    by (simp_all add: demo_cfg_def NewNumericDate_demo)
  from token_round_trip[OF h n, of 0] demo_token_issued
  have "fst (ValidateToken demo_cfg 5 5 demo_token two_users)
       = Inr \<lparr>info_ID = ID alice_stored, info_Email = Email alice_stored,
              info_Username = Username alice_stored, info_FirstName = FirstName alice_stored,
              info_LastName = LastName alice_stored, info_CreatedAt = CreatedAt alice_stored\<rparr>"
    by auto
  then have "fst (ValidateToken demo_cfg 5 5 demo_token two_users)
       = Inr \<lparr>info_ID = ''u1'', info_Email = ''a@x.com'', info_Username = ''alice'',
              info_FirstName = ''A'', info_LastName = ''A'', info_CreatedAt = 100\<rparr>"
    by (simp add: alice_stored_def alice_def)
  with h n demo_token_issued show ?thesis by blast
qed

text \<open>
  Claim C8 as stated, with the expiry instant that \<open>generateToken\<close> returns, fails
  inside the last fraction of a second: a token issued at 0.5 s with a lifetime of one
  second has the returned expiry 1.5 s and the expiry claim 1 s, and at 1.2 s it is
  refused with \<open>ErrInvalidToken\<close>.
\<close>

theorem token_refused_before_returned_expiry:
  "generateToken demo_cfg 500000000 500000000 500000000 alice_stored
     = Inr (demo_token, 1500000000)
   \<and> users (store two_users) (ID alice_stored) = Some 1
   \<and> deref (heap two_users) 1 = Some alice_stored
   \<and> IsActive alice_stored
   \<and> (500000000::int) \<le> 1200000000 \<and> (1200000000::int) < 1500000000
   \<and> ValidateToken demo_cfg 1200000000 1200000000 demo_token two_users
       = (Inl auth_ErrInvalidToken, two_users)"
  using demo_token_issued_half
  by (simp add: ValidateToken_def jwt_ParseWithClaims_def jwt_Verify_def jwt_Validate_def
      demo_token_def demo_claims_def demo_cfg_def store_two heap_two deref_def alice_stored_def
      alice_def)

end
